theory Spec2Isabelle
  imports Main
begin

section \<open>The student-facing tool layer of \<open>agent_tools/actions.py\<close>\<close>

text \<open>
  The class \<open>DetectiveTools\<close> resolves a named tool call against a dataset store
  (\<open>CaseDB\<close>, module \<open>agent_tools/db.py\<close>) and the table \<open>FIELD_ALIAS_CATEGORY\<close>
  (module \<open>agent_tools/constants.py\<close>). Neither module is part of the sources at hand:
  the store's methods are the fields of a record of functions, and the table is a
  parameter \<open>fac\<close> of every definition that reads it. Every theorem below holds for
  all stores and all tables.

  Python strings are modelled as \<open>string\<close>, a character standing for the code point
  of its value: the strings of the model are the Python strings over the code points
  below 256. The values of the keyword arguments are strings already, so the conversion
  \<open>str(kwargs[name])\<close> is the identity.
\<close>

subsection \<open>The dataset store, as \<open>_call\<close> uses it\<close>

text \<open>
  \<open>input_arg_order\<close> raises \<open>KeyError\<close> for an action that the catalog does not
  have: that is the value \<open>None\<close>. \<open>lookup_exact\<close> returns the response or Python's
  \<open>None\<close>; \<open>lookup_fuzzy\<close> returns a pair of such a response and debug information of
  some type \<open>'dbg\<close>. \<open>actions_catalog\<close> stands for the keys of the attribute of that
  name. Apart from the \<open>KeyError\<close> of \<open>input_arg_order\<close>, which \<open>_call\<close> catches,
  the methods are taken to return a value on every input: \<open>canonicalize\<close> is
  best-effort and passes on what it does not know, and \<open>_call\<close> handles no exception
  of the other methods.
\<close>

record 'dbg CaseDB =
  case_exists :: "string \<Rightarrow> bool"
  input_arg_order :: "string \<Rightarrow> string list option"
  actions_for_case :: "string \<Rightarrow> string set"
  canonicalize :: "string \<Rightarrow> string \<Rightarrow> string"
  lookup_exact :: "string \<Rightarrow> string \<Rightarrow> string list \<Rightarrow> string option"
  lookup_fuzzy :: "string \<Rightarrow> string \<Rightarrow> string list \<Rightarrow> string option \<times> 'dbg"
  actions_catalog :: "string set"

text \<open>The instance: \<open>self._db\<close>, \<open>self.case_id\<close>, \<open>self.match_mode\<close>, \<open>self.raise_errors\<close>.\<close>

record 'dbg DetectiveTools =
  db :: "'dbg CaseDB"
  case_id :: string
  match_mode :: string
  raise_errors :: bool

definition set_case :: "'dbg DetectiveTools \<Rightarrow> string \<Rightarrow> 'dbg DetectiveTools" where
  "set_case self cid = self\<lparr>case_id := cid\<rparr>"

subsection \<open>Outcomes and the queries a call makes\<close>

text \<open>
  A call ends in one of three ways: \<open>return resp\<close> (a response of the store),
  \<open>return msg\<close> inside \<open>_maybe_error\<close> (a sentinel string), or
  \<open>raise ToolException(msg)\<close>. The first two hand the caller a plain string, which
  \<open>returned\<close> reads off.
\<close>

datatype outcome = Response string | Sentinel string | ToolException string

fun returned :: "outcome \<Rightarrow> string option" where
  "returned (Response r) = Some r"
| "returned (Sentinel m) = Some m"
| "returned (ToolException m) = None"

text \<open>The methods of the store that a call invokes, in the order of invocation.\<close>

datatype db_call =
    CaseExists string
  | InputArgOrder string
  | ActionsForCase string
  | Canonicalize string string
  | LookupExact string string "string list"
  | LookupFuzzy string string "string list"

subsection \<open>Python's \<open>repr\<close> of a list of strings\<close>

text \<open>
  The message for a missing argument formats \<open>expected_order\<close> with an f-string, which
  is \<open>repr\<close> of the list. \<open>repr\<close> of a string picks double quotes when the string has
  a single quote and no double quote, escapes the quote in use, the backslash, tab,
  newline and carriage return, and writes every other code point that is not printable
  as \<open>\xhh\<close>. Below 256 the code points that are not printable are the controls
  0 to 31 and 127 to 159, the no-break space 160 and the soft hyphen 173; the space 32
  is kept.
\<close>

definition hex_digit :: "nat \<Rightarrow> char" where
  "hex_digit n = ''0123456789abcdef'' ! (n mod 16)"

definition repr_char :: "char \<Rightarrow> char \<Rightarrow> string" where
  "repr_char q c =
     (if c = q \<or> c = CHR 0x5C then [CHR 0x5C, c]
      else if c = CHR 0x09 then [CHR 0x5C, CHR ''t'']
      else if c = CHR 0x0A then [CHR 0x5C, CHR ''n'']
      else if c = CHR 0x0D then [CHR 0x5C, CHR ''r'']
      else if of_char c < (32::nat) \<or> (127 \<le> (of_char c :: nat) \<and> of_char c \<le> (160::nat))
              \<or> of_char c = (173::nat)
        then [CHR 0x5C, CHR ''x'', hex_digit (of_char c div 16), hex_digit (of_char c)]
      else [c])"

definition py_repr_str :: "string \<Rightarrow> string" where
  "py_repr_str s =
     (let q = (if CHR 0x27 \<in> set s \<and> CHR 0x22 \<notin> set s then CHR 0x22 else CHR 0x27)
      in q # concat (map (repr_char q) s) @ [q])"

fun join_comma :: "string list \<Rightarrow> string" where
  "join_comma [] = []"
| "join_comma [x] = x"
| "join_comma (x # y # ys) = x @ '', '' @ join_comma (y # ys)"

definition py_repr_list :: "string list \<Rightarrow> string" where
  "py_repr_list xs = ''['' @ join_comma (map py_repr_str xs) @ '']''"

subsection \<open>The messages of \<open>_call\<close>\<close>

definition msg_unknown_case :: string where
  "msg_unknown_case = ''[error] Unknown case_id.''"

definition msg_unknown_action :: string where
  "msg_unknown_action = ''[error] Unknown action.''"

definition msg_not_enabled :: string where
  "msg_not_enabled = ''[error] This action is not available for the current case.''"

definition msg_missing_argument :: "string \<Rightarrow> string list \<Rightarrow> string" where
  "msg_missing_argument name expected_order =
     ''[error] Missing required argument '' @ [CHR 0x27] @ name @ [CHR 0x27] @
     ''. Required args: '' @ py_repr_list expected_order"

definition msg_no_match_exact :: string where
  "msg_no_match_exact =
     ''[no-match] Inputs not recognized. Check spelling, use full names, and standard time ranges (e.g., '' @
     [CHR 0x27] @ ''20:10-20:20'' @ [CHR 0x27] @ '').''"

definition msg_no_match_fuzzy :: string where
  "msg_no_match_fuzzy =
     ''[no-match] Could not confidently match your inputs. Try exact location names and full person names.''"

subsection \<open>\<open>DetectiveTools._call\<close>\<close>

text \<open>The local function \<open>_maybe_error\<close>, with \<open>use_raise\<close> of the enclosing call.\<close>

definition maybe_error :: "bool \<Rightarrow> string \<Rightarrow> outcome" where
  "maybe_error use_raise msg = (if use_raise then ToolException msg else Sentinel msg)"

text \<open>
  The loop that builds \<open>args_in_order\<close>. A name that \<open>kwargs\<close> does not have raises
  \<open>KeyError(name)\<close>, which ends the loop: \<open>Inl name\<close>. A field whose category
  \<open>FIELD_ALIAS_CATEGORY.get(name)\<close> is \<open>None\<close> or the empty string keeps its value;
  any other field is canonicalised by the store.
\<close>

fun build_args ::
  "'dbg CaseDB \<Rightarrow> (string \<rightharpoonup> string) \<Rightarrow> (string \<rightharpoonup> string) \<Rightarrow> string list
   \<Rightarrow> (string + string list) \<times> db_call list" where
  "build_args d fac kwargs [] = (Inr [], [])"
| "build_args d fac kwargs (name # names) =
     (case kwargs name of
        None \<Rightarrow> (Inl name, [])
      | Some v \<Rightarrow>
          (let (a, ev) =
                 (case fac name of
                    None \<Rightarrow> (v, [])
                  | Some cat \<Rightarrow>
                      if cat \<noteq> [] then (canonicalize d cat v, [Canonicalize cat v])
                      else (v, []))
           in case build_args d fac kwargs names of
                (Inl missing, tr) \<Rightarrow> (Inl missing, ev @ tr)
              | (Inr args, tr) \<Rightarrow> (Inr (a # args), ev @ tr)))"

text \<open>
  What the loop appends for one field, lines 87 and 88 of the source, without the
  record of the query: \<open>canonicalize(cat, v) if cat else v\<close>.
\<close>

definition canon_field :: "'dbg CaseDB \<Rightarrow> (string \<rightharpoonup> string) \<Rightarrow> string \<Rightarrow> string \<Rightarrow> string" where
  "canon_field d fac name v =
     (case fac name of
        None \<Rightarrow> v
      | Some cat \<Rightarrow> if cat \<noteq> [] then canonicalize d cat v else v)"

definition use_raise :: "'dbg DetectiveTools \<Rightarrow> bool option \<Rightarrow> bool" where
  "use_raise self raise_errors_kw =
     (case raise_errors_kw of None \<Rightarrow> raise_errors self | Some b \<Rightarrow> b)"

definition call ::
  "(string \<rightharpoonup> string) \<Rightarrow> 'dbg DetectiveTools \<Rightarrow> string \<Rightarrow> bool option
   \<Rightarrow> (string \<rightharpoonup> string) \<Rightarrow> outcome \<times> db_call list" where
  "call fac self action_name raise_errors_kw kwargs =
     (let ur = use_raise self raise_errors_kw;
          d = db self;
          cid = case_id self
      in
      if \<not> case_exists d cid then
        (maybe_error ur msg_unknown_case, [CaseExists cid])
      else
        (case input_arg_order d action_name of
          None \<Rightarrow>
            (maybe_error ur msg_unknown_action, [CaseExists cid, InputArgOrder action_name])
        | Some expected_order \<Rightarrow>
            (let tr0 = [CaseExists cid, InputArgOrder action_name, ActionsForCase cid] in
             if action_name \<notin> actions_for_case d cid then
               (maybe_error ur msg_not_enabled, tr0)
             else
               (case build_args d fac kwargs expected_order of
                 (Inl missing, tr) \<Rightarrow>
                   (maybe_error ur (msg_missing_argument missing expected_order), tr0 @ tr)
               | (Inr args_in_order, tr) \<Rightarrow>
                   (let resp = lookup_exact d cid action_name args_in_order;
                        tr1 = tr0 @ tr @ [LookupExact cid action_name args_in_order]
                    in
                    if resp \<noteq> None \<or> match_mode self = ''exact'' then
                      (case resp of
                         None \<Rightarrow> (maybe_error ur msg_no_match_exact, tr1)
                       | Some r \<Rightarrow> (Response r, tr1))
                    else
                      (case lookup_fuzzy d cid action_name args_in_order of
                         (resp', dbg) \<Rightarrow>
                           (let tr2 = tr1 @ [LookupFuzzy cid action_name args_in_order] in
                            (case resp' of
                               None \<Rightarrow> (maybe_error ur msg_no_match_fuzzy, tr2)
                             | Some r \<Rightarrow> (Response r, tr2)))))))))"

subsection \<open>The tool functions\<close>

text \<open>
  Each of the twelve methods passes its arguments to \<open>_call\<close> under their names, with
  no \<open>raise_errors\<close> override.
\<close>

definition interview_witness ::
  "(string \<rightharpoonup> string) \<Rightarrow> 'dbg DetectiveTools \<Rightarrow> string \<Rightarrow> outcome \<times> db_call list" where
  "interview_witness fac self witness_name =
     call fac self ''interview_witness'' None [''witness_name'' \<mapsto> witness_name]"

definition review_traffic_cctv ::
  "(string \<rightharpoonup> string) \<Rightarrow> 'dbg DetectiveTools \<Rightarrow> string \<Rightarrow> string \<Rightarrow> outcome \<times> db_call list" where
  "review_traffic_cctv fac self location timeframe =
     call fac self ''review_traffic_cctv'' None
       [''location'' \<mapsto> location, ''timeframe'' \<mapsto> timeframe]"

definition check_vehicle_registration ::
  "(string \<rightharpoonup> string) \<Rightarrow> 'dbg DetectiveTools \<Rightarrow> string \<Rightarrow> outcome \<times> db_call list" where
  "check_vehicle_registration fac self vehicle_number =
     call fac self ''check_vehicle_registration'' None [''vehicle_number'' \<mapsto> vehicle_number]"

definition collect_evidence ::
  "(string \<rightharpoonup> string) \<Rightarrow> 'dbg DetectiveTools \<Rightarrow> string \<Rightarrow> string \<Rightarrow> outcome \<times> db_call list" where
  "collect_evidence fac self location evidence_type =
     call fac self ''collect_evidence'' None
       [''location'' \<mapsto> location, ''evidence_type'' \<mapsto> evidence_type]"

definition analyze_fingerprints ::
  "(string \<rightharpoonup> string) \<Rightarrow> 'dbg DetectiveTools \<Rightarrow> string \<Rightarrow> outcome \<times> db_call list" where
  "analyze_fingerprints fac self sample_id =
     call fac self ''analyze_fingerprints'' None [''sample_id'' \<mapsto> sample_id]"

definition trace_mobile_number ::
  "(string \<rightharpoonup> string) \<Rightarrow> 'dbg DetectiveTools \<Rightarrow> string \<Rightarrow> outcome \<times> db_call list" where
  "trace_mobile_number fac self mobile_number =
     call fac self ''trace_mobile_number'' None [''mobile_number'' \<mapsto> mobile_number]"

definition review_access_logs ::
  "(string \<rightharpoonup> string) \<Rightarrow> 'dbg DetectiveTools \<Rightarrow> string \<Rightarrow> string \<Rightarrow> outcome \<times> db_call list" where
  "review_access_logs fac self facility_or_room timeframe =
     call fac self ''review_access_logs'' None
       [''facility_or_room'' \<mapsto> facility_or_room, ''timeframe'' \<mapsto> timeframe]"

definition review_wifi_logs ::
  "(string \<rightharpoonup> string) \<Rightarrow> 'dbg DetectiveTools \<Rightarrow> string \<Rightarrow> string \<Rightarrow> outcome \<times> db_call list" where
  "review_wifi_logs fac self area timeframe =
     call fac self ''review_wifi_logs'' None [''area'' \<mapsto> area, ''timeframe'' \<mapsto> timeframe]"

definition check_upi_transactions ::
  "(string \<rightharpoonup> string) \<Rightarrow> 'dbg DetectiveTools \<Rightarrow> string \<Rightarrow> string \<Rightarrow> outcome \<times> db_call list" where
  "check_upi_transactions fac self party_name timeframe =
     call fac self ''check_upi_transactions'' None
       [''party_name'' \<mapsto> party_name, ''timeframe'' \<mapsto> timeframe]"

definition interrogate_suspect ::
  "(string \<rightharpoonup> string) \<Rightarrow> 'dbg DetectiveTools \<Rightarrow> string \<Rightarrow> outcome \<times> db_call list" where
  "interrogate_suspect fac self suspect_name =
     call fac self ''interrogate_suspect'' None [''suspect_name'' \<mapsto> suspect_name]"

definition interrogate_suspect_final ::
  "(string \<rightharpoonup> string) \<Rightarrow> 'dbg DetectiveTools \<Rightarrow> string \<Rightarrow> outcome \<times> db_call list" where
  "interrogate_suspect_final fac self suspect_name =
     call fac self ''interrogate_suspect_final'' None [''suspect_name'' \<mapsto> suspect_name]"

definition interrogate_suspect_3rd_degree ::
  "(string \<rightharpoonup> string) \<Rightarrow> 'dbg DetectiveTools \<Rightarrow> string \<Rightarrow> outcome \<times> db_call list" where
  "interrogate_suspect_3rd_degree fac self suspect_name =
     call fac self ''interrogate_suspect_3rd_degree'' None [''suspect_name'' \<mapsto> suspect_name]"

subsection \<open>\<open>as_langchain_tools\<close>\<close>

definition TOOL_METHOD_NAMES :: "string list" where
  "TOOL_METHOD_NAMES =
     [''interview_witness'', ''review_traffic_cctv'', ''check_vehicle_registration'',
      ''collect_evidence'', ''analyze_fingerprints'', ''trace_mobile_number'',
      ''review_access_logs'', ''review_wifi_logs'', ''check_upi_transactions'',
      ''interrogate_suspect'', ''interrogate_suspect_final'',
      ''interrogate_suspect_3rd_degree'']"

text \<open>
  An invocation of a tool: the method that \<open>getattr(self, name)\<close> finds, with the
  arguments of its signature.
\<close>

datatype invocation =
    InterviewWitness string
  | ReviewTrafficCctv string string
  | CheckVehicleRegistration string
  | CollectEvidence string string
  | AnalyzeFingerprints string
  | TraceMobileNumber string
  | ReviewAccessLogs string string
  | ReviewWifiLogs string string
  | CheckUpiTransactions string string
  | InterrogateSuspect string
  | InterrogateSuspectFinal string
  | InterrogateSuspect3rdDegree string

fun method_name :: "invocation \<Rightarrow> string" where
  "method_name (InterviewWitness _) = ''interview_witness''"
| "method_name (ReviewTrafficCctv _ _) = ''review_traffic_cctv''"
| "method_name (CheckVehicleRegistration _) = ''check_vehicle_registration''"
| "method_name (CollectEvidence _ _) = ''collect_evidence''"
| "method_name (AnalyzeFingerprints _) = ''analyze_fingerprints''"
| "method_name (TraceMobileNumber _) = ''trace_mobile_number''"
| "method_name (ReviewAccessLogs _ _) = ''review_access_logs''"
| "method_name (ReviewWifiLogs _ _) = ''review_wifi_logs''"
| "method_name (CheckUpiTransactions _ _) = ''check_upi_transactions''"
| "method_name (InterrogateSuspect _) = ''interrogate_suspect''"
| "method_name (InterrogateSuspectFinal _) = ''interrogate_suspect_final''"
| "method_name (InterrogateSuspect3rdDegree _) = ''interrogate_suspect_3rd_degree''"

fun invoke ::
  "(string \<rightharpoonup> string) \<Rightarrow> 'dbg DetectiveTools \<Rightarrow> invocation \<Rightarrow> outcome \<times> db_call list" where
  "invoke fac self (InterviewWitness w) = interview_witness fac self w"
| "invoke fac self (ReviewTrafficCctv l t) = review_traffic_cctv fac self l t"
| "invoke fac self (CheckVehicleRegistration v) = check_vehicle_registration fac self v"
| "invoke fac self (CollectEvidence l e) = collect_evidence fac self l e"
| "invoke fac self (AnalyzeFingerprints s) = analyze_fingerprints fac self s"
| "invoke fac self (TraceMobileNumber m) = trace_mobile_number fac self m"
| "invoke fac self (ReviewAccessLogs f t) = review_access_logs fac self f t"
| "invoke fac self (ReviewWifiLogs a t) = review_wifi_logs fac self a t"
| "invoke fac self (CheckUpiTransactions p t) = check_upi_transactions fac self p t"
| "invoke fac self (InterrogateSuspect s) = interrogate_suspect fac self s"
| "invoke fac self (InterrogateSuspectFinal s) = interrogate_suspect_final fac self s"
| "invoke fac self (InterrogateSuspect3rdDegree s) = interrogate_suspect_3rd_degree fac self s"

text \<open>
  The closure \<open>_wrapped\<close>: it saves the flag, sets it, calls the method, and restores
  the flag in the \<open>finally\<close> block, which runs after a return and after a raise
  alike. The result is the outcome of the method with the instance after the block.
\<close>

definition wrapped ::
  "(string \<rightharpoonup> string) \<Rightarrow> 'dbg DetectiveTools \<Rightarrow> invocation
   \<Rightarrow> (outcome \<times> db_call list) \<times> 'dbg DetectiveTools" where
  "wrapped fac self i =
     (let prev = raise_errors self;
          self1 = self\<lparr>raise_errors := True\<rparr>;
          res = invoke fac self1 i;
          self2 = self1\<lparr>raise_errors := prev\<rparr>
      in (res, self2))"

text \<open>The names of the tools built: the methods whose action the loaded catalog has.\<close>

definition as_langchain_tools :: "'dbg DetectiveTools \<Rightarrow> string list" where
  "as_langchain_tools self =
     filter (\<lambda>name. name \<in> actions_catalog (db self)) TOOL_METHOD_NAMES"

subsection \<open>Substrings\<close>

text \<open>Python's \<open>sub in s\<close> on strings: \<open>sub\<close> occurs in \<open>s\<close> as a contiguous run.\<close>

fun starts_with :: "string \<Rightarrow> string \<Rightarrow> bool" where
  "starts_with s [] = True"
| "starts_with [] (c # cs) = False"
| "starts_with (x # xs) (c # cs) = (x = c \<and> starts_with xs cs)"

fun contains :: "string \<Rightarrow> string \<Rightarrow> bool" where
  "contains [] sub = (sub = [])"
| "contains (x # xs) sub = (starts_with (x # xs) sub \<or> contains xs sub)"

subsection \<open>The scripted tuples\<close>

text \<open>
  Modelled from the spec: the scripted-tuple table of the store and
  \<open>CaseDB.lookup_exact\<close> on it, which are in \<open>agent_tools/db.py\<close> and the dataset and
  not among the sources. A scripted tuple maps a case id, an action name and the ordered
  canonical argument values to a response string, the three together being its unique
  key; \<open>lookupExact\<close> is the direct key lookup into that table, scoped to the case and
  the action, and gives the response or nothing.
\<close>

type_synonym scripted_tuples = "string \<times> string \<times> string list \<rightharpoonup> string"

definition lookup_exact_spec ::
  "scripted_tuples \<Rightarrow> string \<Rightarrow> string \<Rightarrow> string list \<Rightarrow> string option" where
  "lookup_exact_spec tuples cid action_name args = tuples (cid, action_name, args)"

subsection \<open>The failure classes\<close>

text \<open>
  The six ways a call fails, each with the message that \<open>_call\<close> hands to
  \<open>_maybe_error\<close> for it. A missing argument carries the name that was missing and the
  argument names of the action. An outcome yields a failure when it is the sentinel or
  the exception with that failure's message.
\<close>

datatype failure =
    UnknownCase
  | UnknownAction
  | ActionNotEnabledForCase
  | MissingArgument string "string list"
  | NoMatchExact
  | NoMatchFuzzy

fun failure_msg :: "failure \<Rightarrow> string" where
  "failure_msg UnknownCase = msg_unknown_case"
| "failure_msg UnknownAction = msg_unknown_action"
| "failure_msg ActionNotEnabledForCase = msg_not_enabled"
| "failure_msg (MissingArgument name expected_order) = msg_missing_argument name expected_order"
| "failure_msg NoMatchExact = msg_no_match_exact"
| "failure_msg NoMatchFuzzy = msg_no_match_fuzzy"

definition yields :: "outcome \<Rightarrow> failure \<Rightarrow> bool" where
  "yields out f = (out = Sentinel (failure_msg f) \<or> out = ToolException (failure_msg f))"

subsection \<open>A small store and instance on which the theorems are instantiated\<close>

text \<open>
  The store below is an example with one case, three actions of the catalog, two of
  them enabled, two scripted tuples, one alias of a location and one fuzzy match. Its
  second tuple has the arguments of the happy-path call of \<open>agent_tools/demo.py\<close>. It is not the dataset of the
  repository, which the sources do not contain.
\<close>

definition demo_tuples :: scripted_tuples where
  "demo_tuples =
     [(''canteen_cashbox_theft'', ''interview_witness'', [''Nisha'']) \<mapsto>
        ''Nisha saw a grey scooter.'',
      (''canteen_cashbox_theft'', ''review_traffic_cctv'', [''Parking B'', ''20:10-20:20'']) \<mapsto>
        ''A grey scooter leaves Parking B at 20:14.'']"

definition demo_db :: "nat CaseDB" where
  "demo_db =
     \<lparr> case_exists = (\<lambda>c. c = ''canteen_cashbox_theft''),
       input_arg_order =
         [''interview_witness'' \<mapsto> [''witness_name''],
          ''review_traffic_cctv'' \<mapsto> [''location'', ''timeframe''],
          ''trace_mobile_number'' \<mapsto> [''mobile_number'']],
       actions_for_case =
         (\<lambda>c. if c = ''canteen_cashbox_theft''
              then {''interview_witness'', ''review_traffic_cctv''} else {}),
       canonicalize =
         (\<lambda>cat v. if cat = ''location'' \<and> v = ''parking-b'' then ''Parking B'' else v),
       lookup_exact = lookup_exact_spec demo_tuples,
       lookup_fuzzy =
         (\<lambda>c a k. if c = ''canteen_cashbox_theft'' \<and> a = ''interview_witness'' \<and> k = [''Nishaa'']
                  then (Some ''Nisha saw a grey scooter.'', 91) else (None, 0)),
       actions_catalog = {''interview_witness'', ''review_traffic_cctv'', ''trace_mobile_number''} \<rparr>"

definition demo_fac :: "string \<rightharpoonup> string" where
  "demo_fac = [''location'' \<mapsto> ''location'', ''timeframe'' \<mapsto> ''timeframe'']"

definition demo_tools :: "string \<Rightarrow> string \<Rightarrow> bool \<Rightarrow> nat DetectiveTools" where
  "demo_tools cid mode flag =
     \<lparr> db = demo_db, case_id = cid, match_mode = mode, raise_errors = flag \<rparr>"

section \<open>Properties\<close>

subsection \<open>Auxiliary facts\<close>

lemma demo_lookup_exact:
  "lookup_exact_spec demo_tuples c a k =
     (if c = ''canteen_cashbox_theft'' \<and> a = ''review_traffic_cctv''
         \<and> k = [''Parking B'', ''20:10-20:20'']
      then Some ''A grey scooter leaves Parking B at 20:14.''
      else if c = ''canteen_cashbox_theft'' \<and> a = ''interview_witness'' \<and> k = [''Nisha'']
      then Some ''Nisha saw a grey scooter.'' else None)"
  by (simp add: lookup_exact_spec_def demo_tuples_def)

lemmas msg_defs = msg_unknown_case_def msg_unknown_action_def msg_not_enabled_def
  msg_missing_argument_def msg_no_match_exact_def msg_no_match_fuzzy_def

lemma build_args_trace:
  "e \<in> set (snd (build_args d fac kw ns)) \<Longrightarrow> \<exists>c v. e = Canonicalize c v"
  by (induction ns arbitrary: e) (auto split: option.splits prod.splits sum.splits if_splits)

lemma build_args_no_lookup:
  "LookupExact c a k \<notin> set (snd (build_args d fac kw ns))"
  "LookupFuzzy c a k \<notin> set (snd (build_args d fac kw ns))"
  using build_args_trace by fastforce+

lemma build_args_find:
  "fst (build_args d fac kw ns) = Inl m \<longleftrightarrow> find (\<lambda>n. kw n = None) ns = Some m"
  by (induction ns) (auto split: option.splits prod.splits sum.splits if_splits)

lemma build_args_Inl:
  "fst (build_args d fac kw ns) = Inl m \<Longrightarrow> m \<in> set ns \<and> kw m = None"
  by (induction ns) (auto split: option.splits prod.splits sum.splits if_splits)

lemma build_args_Inr:
  "fst (build_args d fac kw ns) = Inr k \<Longrightarrow> \<forall>n\<in>set ns. kw n \<noteq> None"
  by (induction ns arbitrary: k) (auto split: option.splits prod.splits sum.splits if_splits)

text \<open>The key that the loop builds when no argument is missing.\<close>

lemma build_args_key:
  "map kw ns = map Some vs \<Longrightarrow>
   fst (build_args d fac kw ns) = Inr (map2 (canon_field d fac) ns vs)"
proof (induction ns arbitrary: vs)
  case Nil
  then show ?case by simp
next
  case (Cons n ns)
  then obtain v vs' where vs: "vs = v # vs'" "kw n = Some v" "map kw ns = map Some vs'"
    by (cases vs) auto
  from Cons.IH [OF vs(3)] vs show ?case
    by (cases "build_args d fac kw ns")
      (auto simp: canon_field_def split: option.splits)
qed

text \<open>\<open>contains\<close> is the occurrence as a contiguous run.\<close>

lemma starts_with_iff: "starts_with s sub \<longleftrightarrow> (\<exists>suf. s = sub @ suf)"
  by (induction s sub rule: starts_with.induct) auto

lemma contains_iff: "contains s sub \<longleftrightarrow> (\<exists>pre suf. s = pre @ sub @ suf)"
proof (induction s)
  case Nil
  then show ?case by auto
next
  case (Cons x xs)
  show ?case
  proof
    assume "contains (x # xs) sub"
    then consider "starts_with (x # xs) sub" | "contains xs sub" by auto
    then show "\<exists>pre suf. x # xs = pre @ sub @ suf"
    proof cases
      case 1
      then obtain suf where "x # xs = [] @ sub @ suf" by (auto simp: starts_with_iff)
      then show ?thesis by blast
    next
      case 2
      with Cons.IH obtain pre suf where "xs = pre @ sub @ suf" by blast
      then have "x # xs = (x # pre) @ sub @ suf" by simp
      then show ?thesis by blast
    qed
  next
    assume "\<exists>pre suf. x # xs = pre @ sub @ suf"
    then obtain pre suf where e: "x # xs = pre @ sub @ suf" by blast
    show "contains (x # xs) sub"
    proof (cases pre)
      case Nil
      with e have "starts_with (x # xs) sub" by (auto simp: starts_with_iff)
      then show ?thesis by simp
    next
      case (Cons p ps)
      with e have "xs = ps @ sub @ suf" by simp
      with Cons.IH have "contains xs sub" by blast
      then show ?thesis by simp
    qed
  qed
qed

lemma failure_msg_distinct:
  "failure_msg UnknownCase \<noteq> failure_msg UnknownAction"
  "failure_msg UnknownCase \<noteq> failure_msg ActionNotEnabledForCase"
  "failure_msg UnknownCase \<noteq> failure_msg (MissingArgument n ord)"
  "failure_msg UnknownCase \<noteq> failure_msg NoMatchExact"
  "failure_msg UnknownCase \<noteq> failure_msg NoMatchFuzzy"
  "failure_msg UnknownAction \<noteq> failure_msg ActionNotEnabledForCase"
  "failure_msg UnknownAction \<noteq> failure_msg (MissingArgument n ord)"
  "failure_msg UnknownAction \<noteq> failure_msg NoMatchExact"
  "failure_msg UnknownAction \<noteq> failure_msg NoMatchFuzzy"
  "failure_msg ActionNotEnabledForCase \<noteq> failure_msg (MissingArgument n ord)"
  "failure_msg ActionNotEnabledForCase \<noteq> failure_msg NoMatchExact"
  "failure_msg ActionNotEnabledForCase \<noteq> failure_msg NoMatchFuzzy"
  "failure_msg (MissingArgument n ord) \<noteq> failure_msg NoMatchExact"
  "failure_msg (MissingArgument n ord) \<noteq> failure_msg NoMatchFuzzy"
  "failure_msg NoMatchExact \<noteq> failure_msg NoMatchFuzzy"
  by (simp_all add: msg_defs)

lemma yields_maybe_error:
  "yields (maybe_error b m) f \<longleftrightarrow> failure_msg f = m"
  by (auto simp: yields_def maybe_error_def)

lemma yields_Response: "\<not> yields (Response r) f"
  by (simp add: yields_def)

text \<open>The value of a call, by the guard that decides it.\<close>

lemma call_unknown_case:
  "\<not> case_exists (db self) (case_id self) \<Longrightarrow>
   call fac self a flag kw =
     (maybe_error (use_raise self flag) msg_unknown_case, [CaseExists (case_id self)])"
  by (simp add: call_def Let_def)

lemma call_unknown_action:
  "case_exists (db self) (case_id self) \<Longrightarrow> input_arg_order (db self) a = None \<Longrightarrow>
   call fac self a flag kw =
     (maybe_error (use_raise self flag) msg_unknown_action,
      [CaseExists (case_id self), InputArgOrder a])"
  by (simp add: call_def Let_def)

lemma call_not_enabled:
  "case_exists (db self) (case_id self) \<Longrightarrow> input_arg_order (db self) a = Some ord \<Longrightarrow>
   a \<notin> actions_for_case (db self) (case_id self) \<Longrightarrow>
   call fac self a flag kw =
     (maybe_error (use_raise self flag) msg_not_enabled,
      [CaseExists (case_id self), InputArgOrder a, ActionsForCase (case_id self)])"
  by (simp add: call_def Let_def)

lemma call_missing:
  "case_exists (db self) (case_id self) \<Longrightarrow> input_arg_order (db self) a = Some ord \<Longrightarrow>
   a \<in> actions_for_case (db self) (case_id self) \<Longrightarrow>
   build_args (db self) fac kw ord = (Inl m, tr) \<Longrightarrow>
   call fac self a flag kw =
     (maybe_error (use_raise self flag) (msg_missing_argument m ord),
      [CaseExists (case_id self), InputArgOrder a, ActionsForCase (case_id self)] @ tr)"
  by (simp add: call_def Let_def)

lemma call_lookup:
  "case_exists (db self) (case_id self) \<Longrightarrow> input_arg_order (db self) a = Some ord \<Longrightarrow>
   a \<in> actions_for_case (db self) (case_id self) \<Longrightarrow>
   build_args (db self) fac kw ord = (Inr k, tr) \<Longrightarrow>
   call fac self a flag kw =
     (case lookup_exact (db self) (case_id self) a k of
        Some r \<Rightarrow>
          (Response r,
           [CaseExists (case_id self), InputArgOrder a, ActionsForCase (case_id self)] @ tr @
           [LookupExact (case_id self) a k])
      | None \<Rightarrow>
          if match_mode self = ''exact'' then
            (maybe_error (use_raise self flag) msg_no_match_exact,
             [CaseExists (case_id self), InputArgOrder a, ActionsForCase (case_id self)] @ tr @
             [LookupExact (case_id self) a k])
          else
            (case fst (lookup_fuzzy (db self) (case_id self) a k) of
               None \<Rightarrow> maybe_error (use_raise self flag) msg_no_match_fuzzy
             | Some r \<Rightarrow> Response r,
             [CaseExists (case_id self), InputArgOrder a, ActionsForCase (case_id self)] @ tr @
             [LookupExact (case_id self) a k, LookupFuzzy (case_id self) a k]))"
  by (auto simp add: call_def Let_def split: option.splits prod.splits)

lemma maybe_error_not_Response: "maybe_error b m \<noteq> Response r"
  by (simp add: maybe_error_def)

subsection \<open>Validation failures\<close>

text \<open>
  C4. When the active case id does not exist, the call yields UnknownCase, whatever the
  action name, the arguments, the match mode and the flag are: it yields none of
  UnknownAction, ActionNotEnabledForCase, MissingArgument and the two no-match
  failures, it returns no response, and the only query it makes is \<open>case_exists\<close>.
\<close>

theorem unknown_case_outcome:
  assumes "\<not> case_exists (db self) (case_id self)"
  shows "yields (fst (call fac self action_name flag kwargs)) UnknownCase
    \<and> \<not> yields (fst (call fac self action_name flag kwargs)) UnknownAction
    \<and> \<not> yields (fst (call fac self action_name flag kwargs)) ActionNotEnabledForCase
    \<and> (\<forall>n ord. \<not> yields (fst (call fac self action_name flag kwargs)) (MissingArgument n ord))
    \<and> \<not> yields (fst (call fac self action_name flag kwargs)) NoMatchExact
    \<and> \<not> yields (fst (call fac self action_name flag kwargs)) NoMatchFuzzy
    \<and> (\<forall>r. fst (call fac self action_name flag kwargs) \<noteq> Response r)
    \<and> snd (call fac self action_name flag kwargs) = [CaseExists (case_id self)]"
proof -
  have "fst (call fac self action_name flag kwargs)
      = maybe_error (use_raise self flag) (failure_msg UnknownCase)"
    and "snd (call fac self action_name flag kwargs) = [CaseExists (case_id self)]"
    using call_unknown_case [OF assms] by simp_all
  then show ?thesis
    using failure_msg_distinct(1-5) [symmetric]
    by (simp add: yields_maybe_error maybe_error_not_Response del: failure_msg.simps)
qed

theorem unknown_case_outcome_witness:
  "\<not> case_exists (db (demo_tools ''unknown_case'' ''smart'' True)) (case_id (demo_tools ''unknown_case'' ''smart'' True))
   \<and> fst (call demo_fac (demo_tools ''unknown_case'' ''smart'' True) ''no_such_action'' None Map.empty)
       = ToolException ''[error] Unknown case_id.''
   \<and> yields (fst (call demo_fac (demo_tools ''unknown_case'' ''smart'' True) ''no_such_action'' None Map.empty)) UnknownCase
   \<and> \<not> yields (fst (call demo_fac (demo_tools ''unknown_case'' ''smart'' True) ''no_such_action'' None Map.empty)) UnknownAction"
proof -
  have h: "\<not> case_exists (db (demo_tools ''unknown_case'' ''smart'' True))
             (case_id (demo_tools ''unknown_case'' ''smart'' True))"
    by (simp add: demo_tools_def demo_db_def demo_lookup_exact)
  have v: "fst (call demo_fac (demo_tools ''unknown_case'' ''smart'' True) ''no_such_action'' None Map.empty)
       = ToolException ''[error] Unknown case_id.''"
    by (simp add: call_def demo_tools_def demo_db_def demo_lookup_exact use_raise_def maybe_error_def msg_unknown_case_def)
  from h v unknown_case_outcome [OF h, of demo_fac "''no_such_action''" None Map.empty]
  show ?thesis by blast
qed

text \<open>
  C5. For an existing case and an action that the catalog has (\<open>input_arg_order\<close> does
  not raise) but that is not among the actions of the case, the call yields
  ActionNotEnabledForCase and does not yield UnknownAction.
\<close>

theorem disabled_action_outcome:
  assumes "case_exists (db self) (case_id self)"
    and "input_arg_order (db self) action_name = Some ord"
    and "action_name \<notin> actions_for_case (db self) (case_id self)"
  shows "yields (fst (call fac self action_name flag kwargs)) ActionNotEnabledForCase
    \<and> \<not> yields (fst (call fac self action_name flag kwargs)) UnknownAction"
proof -
  have "fst (call fac self action_name flag kwargs)
      = maybe_error (use_raise self flag) (failure_msg ActionNotEnabledForCase)"
    using call_not_enabled [OF assms] by simp
  then show ?thesis
    using failure_msg_distinct(6)
    by (simp add: yields_maybe_error del: failure_msg.simps)
qed

theorem disabled_action_outcome_witness:
  "case_exists (db (demo_tools ''canteen_cashbox_theft'' ''smart'' False)) (case_id (demo_tools ''canteen_cashbox_theft'' ''smart'' False))
   \<and> input_arg_order (db (demo_tools ''canteen_cashbox_theft'' ''smart'' False)) ''trace_mobile_number'' = Some [''mobile_number'']
   \<and> ''trace_mobile_number'' \<notin> actions_for_case (db (demo_tools ''canteen_cashbox_theft'' ''smart'' False)) (case_id (demo_tools ''canteen_cashbox_theft'' ''smart'' False))
   \<and> yields (fst (call demo_fac (demo_tools ''canteen_cashbox_theft'' ''smart'' False) ''trace_mobile_number'' None [''mobile_number'' \<mapsto> ''9876543210''])) ActionNotEnabledForCase
   \<and> \<not> yields (fst (call demo_fac (demo_tools ''canteen_cashbox_theft'' ''smart'' False) ''trace_mobile_number'' None [''mobile_number'' \<mapsto> ''9876543210''])) UnknownAction"
proof -
  let ?s = "demo_tools ''canteen_cashbox_theft'' ''smart'' False"
  have h1: "case_exists (db ?s) (case_id ?s)"
    by (simp add: demo_tools_def demo_db_def demo_lookup_exact)
  have h2: "input_arg_order (db ?s) ''trace_mobile_number'' = Some [''mobile_number'']"
    by (simp add: demo_tools_def demo_db_def demo_lookup_exact)
  have h3: "''trace_mobile_number'' \<notin> actions_for_case (db ?s) (case_id ?s)"
    by (simp add: demo_tools_def demo_db_def demo_lookup_exact)
  from h1 h2 h3
    disabled_action_outcome [OF h1 h2 h3, of demo_fac None "[''mobile_number'' \<mapsto> ''9876543210'']"]
  show ?thesis by blast
qed

text \<open>
  C6. For an existing case and an enabled action of the catalog, when a required
  argument name is absent from the keyword arguments, the call yields MissingArgument:
  its message is built from the first absent name of the action's argument order and
  from that order, and from nothing else, and the call makes neither an exact nor a
  fuzzy lookup.
\<close>

theorem missing_argument_outcome:
  assumes "case_exists (db self) (case_id self)"
    and "input_arg_order (db self) action_name = Some ord"
    and "action_name \<in> actions_for_case (db self) (case_id self)"
    and "n \<in> set ord" and "kwargs n = None"
  shows "\<exists>m. find (\<lambda>x. kwargs x = None) ord = Some m
      \<and> fst (call fac self action_name flag kwargs)
          = maybe_error (use_raise self flag) (msg_missing_argument m ord)
      \<and> yields (fst (call fac self action_name flag kwargs)) (MissingArgument m ord)
      \<and> (\<forall>c a k. LookupExact c a k \<notin> set (snd (call fac self action_name flag kwargs))
                 \<and> LookupFuzzy c a k \<notin> set (snd (call fac self action_name flag kwargs)))"
proof -
  obtain res tr where b: "build_args (db self) fac kwargs ord = (res, tr)"
    by (cases "build_args (db self) fac kwargs ord")
  have "\<forall>k. res \<noteq> Inr k"
  proof (intro allI notI)
    fix k assume "res = Inr k"
    with b have "fst (build_args (db self) fac kwargs ord) = Inr k" by simp
    from build_args_Inr [OF this] assms(4,5) show False by blast
  qed
  then obtain m where m: "res = Inl m" by (cases res) auto
  with b have f: "find (\<lambda>x. kwargs x = None) ord = Some m"
    using build_args_find [of "db self" fac kwargs ord m] by simp
  have tr: "LookupExact c a k \<notin> set tr" "LookupFuzzy c a k \<notin> set tr" for c a k
    using build_args_no_lookup [of _ _ _ "db self" fac kwargs ord] b by simp_all
  have c: "call fac self action_name flag kwargs =
     (maybe_error (use_raise self flag) (msg_missing_argument m ord),
      [CaseExists (case_id self), InputArgOrder action_name, ActionsForCase (case_id self)] @ tr)"
    using call_missing [OF assms(1-3)] b m by simp
  show ?thesis
    using f tr by (intro exI [of _ m]) (simp add: c yields_maybe_error)
qed

theorem missing_argument_outcome_witness:
  "case_exists (db (demo_tools ''canteen_cashbox_theft'' ''smart'' False))
       (case_id (demo_tools ''canteen_cashbox_theft'' ''smart'' False))
   \<and> input_arg_order (db (demo_tools ''canteen_cashbox_theft'' ''smart'' False)) ''review_traffic_cctv''
       = Some [''location'', ''timeframe'']
   \<and> ''review_traffic_cctv'' \<in> actions_for_case (db (demo_tools ''canteen_cashbox_theft'' ''smart'' False))
       (case_id (demo_tools ''canteen_cashbox_theft'' ''smart'' False))
   \<and> ''timeframe'' \<in> set [''location'', ''timeframe'']
   \<and> [''location'' \<mapsto> ''parking-b''] ''timeframe'' = None
   \<and> fst (call demo_fac (demo_tools ''canteen_cashbox_theft'' ''smart'' False) ''review_traffic_cctv'' None
         [''location'' \<mapsto> ''parking-b''])
       = Sentinel (msg_missing_argument ''timeframe'' [''location'', ''timeframe''])
   \<and> LookupExact ''canteen_cashbox_theft'' ''review_traffic_cctv'' [''Parking B'']
       \<notin> set (snd (call demo_fac (demo_tools ''canteen_cashbox_theft'' ''smart'' False)
             ''review_traffic_cctv'' None [''location'' \<mapsto> ''parking-b'']))"
proof -
  let ?s = "demo_tools ''canteen_cashbox_theft'' ''smart'' False"
  let ?kw = "[''location'' \<mapsto> ''parking-b'']"
  have h1: "case_exists (db ?s) (case_id ?s)"
    by (simp add: demo_tools_def demo_db_def demo_lookup_exact)
  have h2: "input_arg_order (db ?s) ''review_traffic_cctv'' = Some [''location'', ''timeframe'']"
    by (simp add: demo_tools_def demo_db_def demo_lookup_exact)
  have h3: "''review_traffic_cctv'' \<in> actions_for_case (db ?s) (case_id ?s)"
    by (simp add: demo_tools_def demo_db_def demo_lookup_exact)
  have h4: "''timeframe'' \<in> set [''location'', ''timeframe'']" by simp
  have h5: "?kw ''timeframe'' = None" by simp
  have u: "use_raise ?s None = False"
    by (simp add: use_raise_def demo_tools_def)
  from missing_argument_outcome [where self = "?s" and kwargs = "?kw" and n = "''timeframe''"
      and fac = demo_fac and flag = None, OF h1 h2 h3 h4 h5]
  obtain m where m: "find (\<lambda>x. ?kw x = None) [''location'', ''timeframe''] = Some m"
    and o: "fst (call demo_fac ?s ''review_traffic_cctv'' None ?kw)
          = maybe_error (use_raise ?s None) (msg_missing_argument m [''location'', ''timeframe''])"
    and t: "\<forall>c a k. LookupExact c a k \<notin> set (snd (call demo_fac ?s ''review_traffic_cctv'' None ?kw))
                 \<and> LookupFuzzy c a k \<notin> set (snd (call demo_fac ?s ''review_traffic_cctv'' None ?kw))"
    by blast
  from m have "m = ''timeframe''" by simp
  with o u have "fst (call demo_fac ?s ''review_traffic_cctv'' None ?kw)
       = Sentinel (msg_missing_argument ''timeframe'' [''location'', ''timeframe''])"
    by (simp add: maybe_error_def)
  with h1 h2 h3 h4 h5 t show ?thesis by blast
qed

text \<open>The message of that instance, written out.\<close>

lemma msg_missing_argument_example:
  "msg_missing_argument ''timeframe'' [''location'', ''timeframe'']
    = ''[error] Missing required argument '' @ [CHR 0x27] @ ''timeframe'' @ [CHR 0x27] @
      ''. Required args: ['' @ [CHR 0x27] @ ''location'' @ [CHR 0x27] @ '', '' @
      [CHR 0x27] @ ''timeframe'' @ [CHR 0x27] @ '']''"
  by (simp add: msg_missing_argument_def py_repr_list_def py_repr_str_def repr_char_def Let_def)

subsection \<open>The two lookups\<close>

lemma build_args_eq_no_lookup:
  "build_args d fac kw ns = (res, tr) \<Longrightarrow>
   LookupExact c a k \<notin> set tr \<and> LookupFuzzy c a k \<notin> set tr"
  using build_args_no_lookup [of c a k d fac kw ns] by simp

lemma call_no_lookup:
  assumes "\<not> (case_exists (db self) (case_id self)
            \<and> (\<exists>ord. input_arg_order (db self) a = Some ord
                 \<and> a \<in> actions_for_case (db self) (case_id self)
                 \<and> (\<exists>k. fst (build_args (db self) fac kw ord) = Inr k)))"
  shows "LookupExact c b k \<notin> set (snd (call fac self a flag kw))"
    and "LookupFuzzy c b k \<notin> set (snd (call fac self a flag kw))"
  using assms
  by (auto simp: call_def Let_def split: option.splits prod.splits sum.splits
      dest: build_args_eq_no_lookup)

text \<open>
  C3. In match mode \<open>exact\<close> a call never invokes \<open>lookup_fuzzy\<close>, and when its exact
  lookup misses it ends in the no-match failure of the exact mode. In match mode
  \<open>smart\<close> a fuzzy lookup is invoked only directly after an exact lookup of the same
  key that missed, and every exact lookup that misses is followed by the fuzzy one.
\<close>

theorem match_mode_switch:
  "(match_mode self = ''exact'' \<longrightarrow>
      (\<forall>c a k. LookupFuzzy c a k \<notin> set (snd (call fac self action_name flag kwargs)))
    \<and> (\<forall>c a k. LookupExact c a k \<in> set (snd (call fac self action_name flag kwargs))
              \<and> lookup_exact (db self) c a k = None
          \<longrightarrow> fst (call fac self action_name flag kwargs)
                = maybe_error (use_raise self flag) msg_no_match_exact))
   \<and> (match_mode self = ''smart'' \<longrightarrow>
      (\<forall>c a k. LookupFuzzy c a k \<in> set (snd (call fac self action_name flag kwargs))
          \<longrightarrow> lookup_exact (db self) c a k = None
              \<and> (\<exists>pre. snd (call fac self action_name flag kwargs)
                        = pre @ [LookupExact c a k, LookupFuzzy c a k]))
    \<and> (\<forall>c a k. LookupExact c a k \<in> set (snd (call fac self action_name flag kwargs))
              \<and> lookup_exact (db self) c a k = None
          \<longrightarrow> LookupFuzzy c a k \<in> set (snd (call fac self action_name flag kwargs))))"
proof (cases "case_exists (db self) (case_id self)
            \<and> (\<exists>ord. input_arg_order (db self) action_name = Some ord
                 \<and> action_name \<in> actions_for_case (db self) (case_id self)
                 \<and> (\<exists>k. fst (build_args (db self) fac kwargs ord) = Inr k))")
  case False
  from call_no_lookup [OF False] show ?thesis by blast
next
  case True
  then obtain ord k tr where h: "case_exists (db self) (case_id self)"
      "input_arg_order (db self) action_name = Some ord"
      "action_name \<in> actions_for_case (db self) (case_id self)"
      "build_args (db self) fac kwargs ord = (Inr k, tr)"
    by (metis prod.collapse)
  have tr: "LookupExact c a k' \<notin> set tr" "LookupFuzzy c a k' \<notin> set tr" for c a k'
    using build_args_no_lookup [of _ _ _ "db self" fac kwargs ord] h(4) by simp_all
  show ?thesis
  proof (cases "lookup_exact (db self) (case_id self) action_name k")
    case (Some r)
    then show ?thesis
      using tr by (auto simp: call_lookup [OF h])
  next
    case None
    show ?thesis
    proof (cases "match_mode self = ''exact''")
      case True
      then show ?thesis
        using tr None by (auto simp: call_lookup [OF h])
    next
      case False
      have "snd (call fac self action_name flag kwargs) =
          ([CaseExists (case_id self), InputArgOrder action_name, ActionsForCase (case_id self)] @ tr)
          @ [LookupExact (case_id self) action_name k, LookupFuzzy (case_id self) action_name k]"
        using None False by (simp add: call_lookup [OF h])
      then show ?thesis
        using tr None False by auto
    qed
  qed
qed


text \<open>Three calls on the small store, evaluated.\<close>

lemma demo_exact_miss:
  "call demo_fac (demo_tools ''canteen_cashbox_theft'' ''exact'' False) ''interview_witness'' None
     [''witness_name'' \<mapsto> ''Nishaa'']
   = (Sentinel msg_no_match_exact,
      [CaseExists ''canteen_cashbox_theft'', InputArgOrder ''interview_witness'',
       ActionsForCase ''canteen_cashbox_theft'',
       LookupExact ''canteen_cashbox_theft'' ''interview_witness'' [''Nishaa'']])"
  by (simp add: call_def Let_def demo_tools_def demo_db_def demo_lookup_exact demo_fac_def use_raise_def maybe_error_def)

lemma demo_smart_fuzzy:
  "call demo_fac (demo_tools ''canteen_cashbox_theft'' ''smart'' False) ''interview_witness'' None
     [''witness_name'' \<mapsto> ''Nishaa'']
   = (Response ''Nisha saw a grey scooter.'',
      [CaseExists ''canteen_cashbox_theft'', InputArgOrder ''interview_witness'',
       ActionsForCase ''canteen_cashbox_theft'',
       LookupExact ''canteen_cashbox_theft'' ''interview_witness'' [''Nishaa''],
       LookupFuzzy ''canteen_cashbox_theft'' ''interview_witness'' [''Nishaa'']])"
  by (simp add: call_def Let_def demo_tools_def demo_db_def demo_lookup_exact demo_fac_def use_raise_def maybe_error_def)

lemma demo_exact_hit:
  "call demo_fac (demo_tools ''canteen_cashbox_theft'' mode flag) ''interview_witness'' None
     [''witness_name'' \<mapsto> ''Nisha'']
   = (Response ''Nisha saw a grey scooter.'',
      [CaseExists ''canteen_cashbox_theft'', InputArgOrder ''interview_witness'',
       ActionsForCase ''canteen_cashbox_theft'',
       LookupExact ''canteen_cashbox_theft'' ''interview_witness'' [''Nisha'']])"
  by (simp add: call_def Let_def demo_tools_def demo_db_def demo_lookup_exact demo_fac_def use_raise_def maybe_error_def)

theorem match_mode_switch_witness:
  "match_mode (demo_tools ''canteen_cashbox_theft'' ''exact'' False) = ''exact''
   \<and> LookupExact ''canteen_cashbox_theft'' ''interview_witness'' [''Nishaa'']
       \<in> set (snd (call demo_fac (demo_tools ''canteen_cashbox_theft'' ''exact'' False)
             ''interview_witness'' None [''witness_name'' \<mapsto> ''Nishaa'']))
   \<and> lookup_exact (db (demo_tools ''canteen_cashbox_theft'' ''exact'' False))
        ''canteen_cashbox_theft'' ''interview_witness'' [''Nishaa''] = None
   \<and> fst (call demo_fac (demo_tools ''canteen_cashbox_theft'' ''exact'' False)
             ''interview_witness'' None [''witness_name'' \<mapsto> ''Nishaa''])
       = maybe_error (use_raise (demo_tools ''canteen_cashbox_theft'' ''exact'' False) None)
           msg_no_match_exact
   \<and> LookupFuzzy ''canteen_cashbox_theft'' ''interview_witness'' [''Nishaa'']
       \<notin> set (snd (call demo_fac (demo_tools ''canteen_cashbox_theft'' ''exact'' False)
             ''interview_witness'' None [''witness_name'' \<mapsto> ''Nishaa'']))
   \<and> match_mode (demo_tools ''canteen_cashbox_theft'' ''smart'' False) = ''smart''
   \<and> LookupExact ''canteen_cashbox_theft'' ''interview_witness'' [''Nishaa'']
       \<in> set (snd (call demo_fac (demo_tools ''canteen_cashbox_theft'' ''smart'' False)
             ''interview_witness'' None [''witness_name'' \<mapsto> ''Nishaa'']))
   \<and> lookup_exact (db (demo_tools ''canteen_cashbox_theft'' ''smart'' False))
        ''canteen_cashbox_theft'' ''interview_witness'' [''Nishaa''] = None
   \<and> LookupFuzzy ''canteen_cashbox_theft'' ''interview_witness'' [''Nishaa'']
       \<in> set (snd (call demo_fac (demo_tools ''canteen_cashbox_theft'' ''smart'' False)
             ''interview_witness'' None [''witness_name'' \<mapsto> ''Nishaa'']))"
proof -
  let ?e = "demo_tools ''canteen_cashbox_theft'' ''exact'' False"
  let ?s = "demo_tools ''canteen_cashbox_theft'' ''smart'' False"
  let ?kw = "[''witness_name'' \<mapsto> ''Nishaa'']"
  let ?X = "LookupExact ''canteen_cashbox_theft'' ''interview_witness'' [''Nishaa'']"
  have e1: "match_mode ?e = ''exact''" and s1: "match_mode ?s = ''smart''"
    by (simp_all add: demo_tools_def)
  have e2: "?X \<in> set (snd (call demo_fac ?e ''interview_witness'' None ?kw))"
    by (simp add: demo_exact_miss)
  have s2: "?X \<in> set (snd (call demo_fac ?s ''interview_witness'' None ?kw))"
    by (simp add: demo_smart_fuzzy)
  have e3: "lookup_exact (db ?e) ''canteen_cashbox_theft'' ''interview_witness'' [''Nishaa''] = None"
    and s3: "lookup_exact (db ?s) ''canteen_cashbox_theft'' ''interview_witness'' [''Nishaa''] = None"
    by (simp_all add: demo_tools_def demo_db_def demo_lookup_exact)
  from match_mode_switch [of ?e demo_fac "''interview_witness''" None ?kw] e1 e2 e3
  have e4: "fst (call demo_fac ?e ''interview_witness'' None ?kw)
       = maybe_error (use_raise ?e None) msg_no_match_exact"
    and e5: "LookupFuzzy ''canteen_cashbox_theft'' ''interview_witness'' [''Nishaa'']
       \<notin> set (snd (call demo_fac ?e ''interview_witness'' None ?kw))"
    by blast+
  from match_mode_switch [of ?s demo_fac "''interview_witness''" None ?kw] s1 s2 s3
  have s4: "LookupFuzzy ''canteen_cashbox_theft'' ''interview_witness'' [''Nishaa'']
       \<in> set (snd (call demo_fac ?s ''interview_witness'' None ?kw))"
    by blast
  from e1 e2 e3 e4 e5 s1 s2 s3 s4 show ?thesis by blast
qed

text \<open>
  C2. Let the exact lookup of the store be the key lookup into a table of scripted
  tuples, and let the caller supply the values \<open>vs\<close> for the arguments of an enabled
  action of an existing case, in the action's order. The key of the call is \<open>vs\<close> with
  each value canonicalised where its field has a category (\<open>canon_field\<close>, lines 87 and
  88). A value is canonical when this canonicalisation leaves it unchanged. If \<open>vs\<close>
  are the canonical argument values of a scripted tuple of the case and the action, the
  call returns that tuple's response. And the call returns a response \<open>r\<close> without a
  fuzzy lookup if and only if the canonicalised key is, value for value, the key of a
  scripted tuple whose response is \<open>r\<close>.
\<close>

theorem exact_match_reflexive:
  assumes "lookup_exact (db self) = lookup_exact_spec tuples"
    and "case_exists (db self) (case_id self)"
    and "input_arg_order (db self) action_name = Some ord"
    and "action_name \<in> actions_for_case (db self) (case_id self)"
    and "map kwargs ord = map Some vs"
  shows "(tuples (case_id self, action_name, vs) = Some r
          \<and> map2 (canon_field (db self) fac) ord vs = vs
          \<longrightarrow> fst (call fac self action_name flag kwargs) = Response r)
    \<and> ((fst (call fac self action_name flag kwargs) = Response r
         \<and> LookupFuzzy (case_id self) action_name (map2 (canon_field (db self) fac) ord vs)
             \<notin> set (snd (call fac self action_name flag kwargs)))
        \<longleftrightarrow> tuples (case_id self, action_name, map2 (canon_field (db self) fac) ord vs) = Some r)"
proof -
  let ?k = "map2 (canon_field (db self) fac) ord vs"
  have "fst (build_args (db self) fac kwargs ord) = Inr ?k"
    using build_args_key [OF assms(5)] .
  then obtain tr where b: "build_args (db self) fac kwargs ord = (Inr ?k, tr)"
    by (cases "build_args (db self) fac kwargs ord") simp
  have tr: "LookupFuzzy (case_id self) action_name ?k \<notin> set tr"
    using build_args_eq_no_lookup [OF b] by simp
  have t: "lookup_exact (db self) (case_id self) action_name ?k
      = tuples (case_id self, action_name, ?k)"
    by (simp add: assms(1) lookup_exact_spec_def)
  have iff: "(fst (call fac self action_name flag kwargs) = Response r
         \<and> LookupFuzzy (case_id self) action_name ?k
             \<notin> set (snd (call fac self action_name flag kwargs)))
        \<longleftrightarrow> tuples (case_id self, action_name, ?k) = Some r"
    using tr
    by (auto simp: call_lookup [OF assms(2-4) b] t maybe_error_def
        split: option.splits if_splits)
  then have "tuples (case_id self, action_name, vs) = Some r \<and> ?k = vs
      \<longrightarrow> fst (call fac self action_name flag kwargs) = Response r"
    by auto
  with iff show ?thesis by blast
qed

theorem exact_match_reflexive_witness:
  "lookup_exact (db (demo_tools ''canteen_cashbox_theft'' ''exact'' True))
       = lookup_exact_spec demo_tuples
   \<and> case_exists (db (demo_tools ''canteen_cashbox_theft'' ''exact'' True))
       (case_id (demo_tools ''canteen_cashbox_theft'' ''exact'' True))
   \<and> input_arg_order (db (demo_tools ''canteen_cashbox_theft'' ''exact'' True)) ''review_traffic_cctv''
       = Some [''location'', ''timeframe'']
   \<and> ''review_traffic_cctv'' \<in> actions_for_case (db (demo_tools ''canteen_cashbox_theft'' ''exact'' True))
       (case_id (demo_tools ''canteen_cashbox_theft'' ''exact'' True))
   \<and> map [''location'' \<mapsto> ''Parking B'', ''timeframe'' \<mapsto> ''20:10-20:20''] [''location'', ''timeframe'']
       = map Some [''Parking B'', ''20:10-20:20'']
   \<and> demo_tuples (case_id (demo_tools ''canteen_cashbox_theft'' ''exact'' True),
         ''review_traffic_cctv'', [''Parking B'', ''20:10-20:20''])
       = Some ''A grey scooter leaves Parking B at 20:14.''
   \<and> map2 (canon_field (db (demo_tools ''canteen_cashbox_theft'' ''exact'' True)) demo_fac)
         [''location'', ''timeframe''] [''Parking B'', ''20:10-20:20'']
       = [''Parking B'', ''20:10-20:20'']
   \<and> fst (call demo_fac (demo_tools ''canteen_cashbox_theft'' ''exact'' True) ''review_traffic_cctv'' None
         [''location'' \<mapsto> ''Parking B'', ''timeframe'' \<mapsto> ''20:10-20:20''])
       = Response ''A grey scooter leaves Parking B at 20:14.''
   \<and> map [''location'' \<mapsto> ''parking-b'', ''timeframe'' \<mapsto> ''20:10-20:20''] [''location'', ''timeframe'']
       = map Some [''parking-b'', ''20:10-20:20'']
   \<and> map2 (canon_field (db (demo_tools ''canteen_cashbox_theft'' ''exact'' True)) demo_fac)
         [''location'', ''timeframe''] [''parking-b'', ''20:10-20:20'']
       = [''Parking B'', ''20:10-20:20'']
   \<and> fst (call demo_fac (demo_tools ''canteen_cashbox_theft'' ''exact'' True) ''review_traffic_cctv'' None
         [''location'' \<mapsto> ''parking-b'', ''timeframe'' \<mapsto> ''20:10-20:20''])
       = Response ''A grey scooter leaves Parking B at 20:14.''"
proof -
  let ?s = "demo_tools ''canteen_cashbox_theft'' ''exact'' True"
  let ?ord = "[''location'', ''timeframe'']"
  let ?kw = "[''location'' \<mapsto> ''Parking B'', ''timeframe'' \<mapsto> ''20:10-20:20'']"
  let ?kw' = "[''location'' \<mapsto> ''parking-b'', ''timeframe'' \<mapsto> ''20:10-20:20'']"
  let ?r = "''A grey scooter leaves Parking B at 20:14.''"
  have h0: "lookup_exact (db ?s) = lookup_exact_spec demo_tuples"
    by (simp add: demo_tools_def demo_db_def)
  have h1: "case_exists (db ?s) (case_id ?s)"
    by (simp add: demo_tools_def demo_db_def)
  have h2: "input_arg_order (db ?s) ''review_traffic_cctv'' = Some ?ord"
    by (simp add: demo_tools_def demo_db_def)
  have h3: "''review_traffic_cctv'' \<in> actions_for_case (db ?s) (case_id ?s)"
    by (simp add: demo_tools_def demo_db_def)
  have h4: "map ?kw ?ord = map Some [''Parking B'', ''20:10-20:20'']" by simp
  have h4': "map ?kw' ?ord = map Some [''parking-b'', ''20:10-20:20'']" by simp
  have t: "demo_tuples (case_id ?s, ''review_traffic_cctv'', [''Parking B'', ''20:10-20:20'']) = Some ?r"
    by (simp add: demo_tools_def demo_tuples_def)
  have c: "map2 (canon_field (db ?s) demo_fac) ?ord [''Parking B'', ''20:10-20:20'']
      = [''Parking B'', ''20:10-20:20'']"
    by (simp add: canon_field_def demo_fac_def demo_tools_def demo_db_def)
  have c': "map2 (canon_field (db ?s) demo_fac) ?ord [''parking-b'', ''20:10-20:20'']
      = [''Parking B'', ''20:10-20:20'']"
    by (simp add: canon_field_def demo_fac_def demo_tools_def demo_db_def)
  from exact_match_reflexive [OF h0 h1 h2 h3 h4, where r = ?r and fac = demo_fac and flag = None] t c
  have a: "fst (call demo_fac ?s ''review_traffic_cctv'' None ?kw) = Response ?r"
    by blast
  from exact_match_reflexive [OF h0 h1 h2 h3 h4', where r = ?r and fac = demo_fac and flag = None]
  have "(fst (call demo_fac ?s ''review_traffic_cctv'' None ?kw') = Response ?r
         \<and> LookupFuzzy (case_id ?s) ''review_traffic_cctv''
              (map2 (canon_field (db ?s) demo_fac) ?ord [''parking-b'', ''20:10-20:20''])
             \<notin> set (snd (call demo_fac ?s ''review_traffic_cctv'' None ?kw')))
        \<longleftrightarrow> demo_tuples (case_id ?s, ''review_traffic_cctv'',
              map2 (canon_field (db ?s) demo_fac) ?ord [''parking-b'', ''20:10-20:20'']) = Some ?r"
    by blast
  with t have b: "fst (call demo_fac ?s ''review_traffic_cctv'' None ?kw') = Response ?r"
    unfolding c' by blast
  from h0 h1 h2 h3 h4 t c a h4' c' b show ?thesis by (intro conjI)
qed

subsection \<open>Sentinel or exception\<close>

lemma use_raise_Some: "use_raise s (Some b) = b"
  by (simp add: use_raise_def)

text \<open>
  Every call either returns a response, whatever the flags are, or fails with one
  message for all flags.
\<close>

lemma call_outcome_cases:
  "(\<exists>r. \<forall>s flag. db s = db self \<and> case_id s = case_id self \<and> match_mode s = match_mode self
            \<longrightarrow> fst (call fac s a flag kw) = Response r)
   \<or> (\<exists>f. \<forall>s flag. db s = db self \<and> case_id s = case_id self \<and> match_mode s = match_mode self
            \<longrightarrow> fst (call fac s a flag kw) = maybe_error (use_raise s flag) (failure_msg f))"
proof (cases "case_exists (db self) (case_id self)")
  case False
  then have "\<forall>s flag. db s = db self \<and> case_id s = case_id self \<and> match_mode s = match_mode self
      \<longrightarrow> fst (call fac s a flag kw) = maybe_error (use_raise s flag) (failure_msg UnknownCase)"
    by (simp add: call_unknown_case)
  then show ?thesis by blast
next
  case ex: True
  show ?thesis
  proof (cases "input_arg_order (db self) a")
    case None
    with ex have "\<forall>s flag. db s = db self \<and> case_id s = case_id self \<and> match_mode s = match_mode self
        \<longrightarrow> fst (call fac s a flag kw) = maybe_error (use_raise s flag) (failure_msg UnknownAction)"
      by (simp add: call_unknown_action)
    then show ?thesis by blast
  next
    case (Some ord)
    show ?thesis
    proof (cases "a \<in> actions_for_case (db self) (case_id self)")
      case False
      with ex Some have "\<forall>s flag. db s = db self \<and> case_id s = case_id self \<and> match_mode s = match_mode self
          \<longrightarrow> fst (call fac s a flag kw)
              = maybe_error (use_raise s flag) (failure_msg ActionNotEnabledForCase)"
        by (simp add: call_not_enabled)
      then show ?thesis by blast
    next
      case en: True
      obtain res tr where b: "build_args (db self) fac kw ord = (res, tr)"
        by (cases "build_args (db self) fac kw ord")
      show ?thesis
      proof (cases res)
        case (Inl m)
        with ex Some en b have "\<forall>s flag. db s = db self \<and> case_id s = case_id self \<and> match_mode s = match_mode self
            \<longrightarrow> fst (call fac s a flag kw)
                = maybe_error (use_raise s flag) (failure_msg (MissingArgument m ord))"
          by (simp add: call_missing)
        then show ?thesis by blast
      next
        case (Inr k)
        show ?thesis
        proof (cases "lookup_exact (db self) (case_id self) a k")
          case (Some r)
          with ex \<open>input_arg_order (db self) a = Some ord\<close> en b Inr
          have "\<forall>s flag. db s = db self \<and> case_id s = case_id self \<and> match_mode s = match_mode self
              \<longrightarrow> fst (call fac s a flag kw) = Response r"
            by (simp add: call_lookup)
          then show ?thesis by blast
        next
          case None
          show ?thesis
          proof (cases "match_mode self = ''exact''")
            case True
            with ex \<open>input_arg_order (db self) a = Some ord\<close> en b Inr None
            have "\<forall>s flag. db s = db self \<and> case_id s = case_id self \<and> match_mode s = match_mode self
                \<longrightarrow> fst (call fac s a flag kw)
                    = maybe_error (use_raise s flag) (failure_msg NoMatchExact)"
              by (simp add: call_lookup)
            then show ?thesis by blast
          next
            case False
            show ?thesis
            proof (cases "fst (lookup_fuzzy (db self) (case_id self) a k)")
              case fn: None
              with ex \<open>input_arg_order (db self) a = Some ord\<close> en b Inr None False
              have "\<forall>s flag. db s = db self \<and> case_id s = case_id self \<and> match_mode s = match_mode self
                  \<longrightarrow> fst (call fac s a flag kw)
                      = maybe_error (use_raise s flag) (failure_msg NoMatchFuzzy)"
                by (simp add: call_lookup)
              then show ?thesis by blast
            next
              case (Some r)
              with ex \<open>input_arg_order (db self) a = Some ord\<close> en b Inr None False
              have "\<forall>s flag. db s = db self \<and> case_id s = case_id self \<and> match_mode s = match_mode self
                  \<longrightarrow> fst (call fac s a flag kw) = Response r"
                by (simp add: call_lookup)
              then show ?thesis by blast
            qed
          qed
        qed
      qed
    qed
  qed
qed

text \<open>
  C7. The effective flag of a call is the override \<open>raise_errors\<close> of the call when
  one is given, and the flag of the instance otherwise. For every failure (UnknownCase,
  UnknownAction, ActionNotEnabledForCase, MissingArgument, NoMatchExact, NoMatchFuzzy)
  and every input that yields it under some setting of the two flags: the call returns
  the failure's message as a string when the effective flag is false, and raises
  ToolException with the same message when it is true.
\<close>

theorem failure_representation:
  "use_raise self None = raise_errors self
   \<and> use_raise self (Some b) = b
   \<and> (yields (fst (call fac (self\<lparr>raise_errors := b'\<rparr>) action_name flag' kwargs)) f \<longrightarrow>
        fst (call fac self action_name flag kwargs)
          = (if use_raise self flag then ToolException (failure_msg f)
             else Sentinel (failure_msg f)))"
proof -
  let ?s' = "self\<lparr>raise_errors := b'\<rparr>"
  have agree: "db ?s' = db self \<and> case_id ?s' = case_id self \<and> match_mode ?s' = match_mode self"
    and refl: "db self = db self \<and> case_id self = case_id self \<and> match_mode self = match_mode self"
    by simp_all
  have "yields (fst (call fac ?s' action_name flag' kwargs)) f \<Longrightarrow>
        fst (call fac self action_name flag kwargs)
          = maybe_error (use_raise self flag) (failure_msg f)"
  proof -
    assume y: "yields (fst (call fac ?s' action_name flag' kwargs)) f"
    from call_outcome_cases [where self = self and a = action_name and fac = fac and kw = kwargs]
    consider r where "\<forall>s flag. db s = db self \<and> case_id s = case_id self \<and> match_mode s = match_mode self
            \<longrightarrow> fst (call fac s action_name flag kwargs) = Response r"
      | g where "\<forall>s flag. db s = db self \<and> case_id s = case_id self \<and> match_mode s = match_mode self
            \<longrightarrow> fst (call fac s action_name flag kwargs)
                = maybe_error (use_raise s flag) (failure_msg g)"
      by blast
    then show ?thesis
    proof cases
      case 1
      with agree have "fst (call fac ?s' action_name flag' kwargs) = Response r" by blast
      with y show ?thesis by (simp add: yields_Response)
    next
      case 2
      with agree have "fst (call fac ?s' action_name flag' kwargs)
          = maybe_error (use_raise ?s' flag') (failure_msg g)" by blast
      with y have "failure_msg f = failure_msg g" by (simp add: yields_maybe_error)
      moreover from 2 refl have "fst (call fac self action_name flag kwargs)
          = maybe_error (use_raise self flag) (failure_msg g)" by blast
      ultimately show ?thesis by simp
    qed
  qed
  then show ?thesis
    by (simp add: use_raise_def maybe_error_def)
qed


theorem failure_representation_witness:
  "yields (fst (call demo_fac ((demo_tools ''unknown_case'' ''smart'' False)\<lparr>raise_errors := True\<rparr>)
       ''interview_witness'' None [''witness_name'' \<mapsto> ''Nisha''])) UnknownCase
   \<and> fst (call demo_fac (demo_tools ''unknown_case'' ''smart'' False)
       ''interview_witness'' None [''witness_name'' \<mapsto> ''Nisha''])
      = Sentinel ''[error] Unknown case_id.''
   \<and> fst (call demo_fac (demo_tools ''unknown_case'' ''smart'' False)
       ''interview_witness'' (Some True) [''witness_name'' \<mapsto> ''Nisha''])
      = ToolException ''[error] Unknown case_id.''"
proof -
  let ?s = "demo_tools ''unknown_case'' ''smart'' False"
  let ?kw = "[''witness_name'' \<mapsto> ''Nisha'']"
  have y: "yields (fst (call demo_fac (?s\<lparr>raise_errors := True\<rparr>) ''interview_witness'' None ?kw))
      UnknownCase"
    by (simp add: call_def Let_def demo_tools_def demo_db_def demo_lookup_exact use_raise_def maybe_error_def
        yields_def)
  have u: "use_raise ?s None = False" "use_raise ?s (Some True) = True"
    by (simp_all add: use_raise_def demo_tools_def)
  from failure_representation [where self = "?s" and b' = True and fac = demo_fac
      and action_name = "''interview_witness''" and flag' = None and kwargs = "?kw"
      and f = UnknownCase and flag = None] y u(1)
  have a: "fst (call demo_fac ?s ''interview_witness'' None ?kw)
      = Sentinel ''[error] Unknown case_id.''"
    by (simp add: msg_unknown_case_def)
  from failure_representation [where self = "?s" and b' = True and fac = demo_fac
      and action_name = "''interview_witness''" and flag' = None and kwargs = "?kw"
      and f = UnknownCase and flag = "Some True"] y u(2)
  have b: "fst (call demo_fac ?s ''interview_witness'' (Some True) ?kw)
      = ToolException ''[error] Unknown case_id.''"
    by (simp add: msg_unknown_case_def)
  from y a b show ?thesis by blast
qed

subsection \<open>What reaches the caller\<close>

text \<open>The debug component of \<open>lookup_fuzzy\<close> has no influence on a call.\<close>

lemma call_lookup_fuzzy_update:
  assumes "\<forall>c a k. fst (lf c a k) = fst (lookup_fuzzy (db self) c a k)"
  shows "call fac (self\<lparr>db := (db self)\<lparr>lookup_fuzzy := lf\<rparr>\<rparr>) action_name flag kwargs
       = call fac self action_name flag kwargs"
proof -
  have b: "build_args ((db self)\<lparr>lookup_fuzzy := lf\<rparr>) fac kwargs ns
      = build_args (db self) fac kwargs ns" for ns
    by (induction ns) (simp_all split: option.splits)
  have u: "use_raise (self\<lparr>db := (db self)\<lparr>lookup_fuzzy := lf\<rparr>\<rparr>) flag = use_raise self flag"
    by (cases flag) (simp_all add: use_raise_def)
  have f: "fst (lf c a k) = fst (lookup_fuzzy (db self) c a k)" for c a k
    using assms by blast
  show ?thesis
    unfolding call_def Let_def
    by (simp add: b u f split_beta cong: option.case_cong sum.case_cong if_cong)
qed
lemma call_failure_messages:
  assumes "fst (call fac self action_name flag kwargs) = Sentinel m
         \<or> fst (call fac self action_name flag kwargs) = ToolException m"
  shows "m \<in> {msg_unknown_case, msg_unknown_action, msg_not_enabled,
               msg_no_match_exact, msg_no_match_fuzzy}
       \<or> (\<exists>n ord. input_arg_order (db self) action_name = Some ord \<and> n \<in> set ord
             \<and> kwargs n = None \<and> m = msg_missing_argument n ord)"
proof (cases "case_exists (db self) (case_id self)")
  case False
  with assms show ?thesis
    by (auto simp: call_unknown_case maybe_error_def split: if_splits)
next
  case ex: True
  show ?thesis
  proof (cases "input_arg_order (db self) action_name")
    case None
    with ex assms show ?thesis
      by (auto simp: call_unknown_action maybe_error_def split: if_splits)
  next
    case (Some ord)
    show ?thesis
    proof (cases "action_name \<in> actions_for_case (db self) (case_id self)")
      case False
      with ex Some assms show ?thesis
        by (auto simp: call_not_enabled maybe_error_def split: if_splits)
    next
      case en: True
      obtain res tr where b: "build_args (db self) fac kwargs ord = (res, tr)"
        by (cases "build_args (db self) fac kwargs ord")
      show ?thesis
      proof (cases res)
        case (Inl n)
        with b have "fst (build_args (db self) fac kwargs ord) = Inl n" by simp
        from build_args_Inl [OF this] have n: "n \<in> set ord" "kwargs n = None" by simp_all
        from assms have "m = msg_missing_argument n ord"
          using call_missing [OF ex Some en b [unfolded Inl]]
          by (auto simp: maybe_error_def split: if_splits)
        with n Some show ?thesis by blast
      next
        case (Inr k)
        from assms show ?thesis
          using call_lookup [OF ex Some en b [unfolded Inr]]
          by (auto simp: maybe_error_def split: if_splits option.splits)
      qed
    qed
  qed
qed

lemma call_response_origin:
  assumes "fst (call fac self action_name flag kwargs) = Response r"
  shows "\<exists>ord k. input_arg_order (db self) action_name = Some ord
       \<and> fst (build_args (db self) fac kwargs ord) = Inr k
       \<and> (lookup_exact (db self) (case_id self) action_name k = Some r
          \<or> fst (lookup_fuzzy (db self) (case_id self) action_name k) = Some r)"
proof -
  have ex: "case_exists (db self) (case_id self)"
  proof (rule ccontr)
    assume "\<not> case_exists (db self) (case_id self)"
    from call_unknown_case [OF this, of fac action_name flag kwargs] assms show False
      by (simp add: maybe_error_def split: if_splits)
  qed
  then obtain ord where ord: "input_arg_order (db self) action_name = Some ord"
    using assms by (cases "input_arg_order (db self) action_name")
      (auto simp: call_unknown_action maybe_error_def split: if_splits)
  have en: "action_name \<in> actions_for_case (db self) (case_id self)"
  proof (rule ccontr)
    assume "action_name \<notin> actions_for_case (db self) (case_id self)"
    from call_not_enabled [OF ex ord this, of fac flag kwargs] assms show False
      by (simp add: maybe_error_def split: if_splits)
  qed
  obtain res tr where b: "build_args (db self) fac kwargs ord = (res, tr)"
    by (cases "build_args (db self) fac kwargs ord")
  have "\<exists>k. res = Inr k"
  proof (cases res)
    case (Inl n)
    with assms call_missing [OF ex ord en b [unfolded Inl], of flag] show ?thesis
      by (auto simp: maybe_error_def split: if_splits)
  qed simp
  then obtain k where k: "res = Inr k" by blast
  from assms call_lookup [OF ex ord en b [unfolded k], of flag]
  have "lookup_exact (db self) (case_id self) action_name k = Some r
          \<or> fst (lookup_fuzzy (db self) (case_id self) action_name k) = Some r"
    by (auto simp: maybe_error_def split: if_splits option.splits)
  with ord b k show ?thesis by auto
qed


subsection \<open>The wrapper of \<open>as_langchain_tools\<close>\<close>

lemma TOOL_METHOD_NAMES_map:
  "TOOL_METHOD_NAMES =
     map method_name
       [InterviewWitness [], ReviewTrafficCctv [] [], CheckVehicleRegistration [],
        CollectEvidence [] [], AnalyzeFingerprints [], TraceMobileNumber [],
        ReviewAccessLogs [] [], ReviewWifiLogs [] [], CheckUpiTransactions [] [],
        InterrogateSuspect [], InterrogateSuspectFinal [], InterrogateSuspect3rdDegree []]"
  by (simp add: TOOL_METHOD_NAMES_def)

lemma TOOL_METHOD_NAMES_methods: "set TOOL_METHOD_NAMES \<subseteq> range method_name"
  unfolding TOOL_METHOD_NAMES_map by (simp only: set_map image_mono subset_UNIV)

lemma invoke_call:
  "\<exists>kw. invoke fac self i = call fac self (method_name i) None kw"
  by (cases i)
    (auto simp: interview_witness_def review_traffic_cctv_def check_vehicle_registration_def
      collect_evidence_def analyze_fingerprints_def trace_mobile_number_def
      review_access_logs_def review_wifi_logs_def check_upi_transactions_def
      interrogate_suspect_def interrogate_suspect_final_def interrogate_suspect_3rd_degree_def)

lemma call_raising_no_Sentinel:
  "use_raise self flag \<Longrightarrow> fst (call fac self a flag kw) \<noteq> Sentinel m"
  using call_outcome_cases [where self = self and a = a and fac = fac and kw = kw]
  by (auto simp: maybe_error_def)

text \<open>
  C10. Every tool that \<open>as_langchain_tools\<close> builds wraps one of the twelve methods.
  Invoking the wrapper leaves the instance, and so its flag \<open>raise_errors\<close>, as it was
  before, whether the method returned or raised. The method itself runs with the flag
  set: the outcome is the one of the method on the instance with the flag true, so a
  failure is raised as ToolException and never returned as a sentinel string.
\<close>

theorem wrapped_restores_flag:
  "raise_errors (snd (wrapped fac self i)) = raise_errors self
   \<and> snd (wrapped fac self i) = self
   \<and> fst (wrapped fac self i) = invoke fac (self\<lparr>raise_errors := True\<rparr>) i
   \<and> fst (fst (wrapped fac self i)) \<noteq> Sentinel m
   \<and> (yields (fst (fst (wrapped fac self i))) f
        \<longrightarrow> fst (fst (wrapped fac self i)) = ToolException (failure_msg f))
   \<and> set (as_langchain_tools self) \<subseteq> range method_name"
proof -
  let ?s1 = "self\<lparr>raise_errors := True\<rparr>"
  have w: "wrapped fac self i = (invoke fac ?s1 i, self)"
    by (simp add: wrapped_def Let_def)
  obtain kw where kw: "invoke fac ?s1 i = call fac ?s1 (method_name i) None kw"
    using invoke_call by blast
  have ur: "use_raise ?s1 None" by (simp add: use_raise_def)
  have ns: "fst (invoke fac ?s1 i) \<noteq> Sentinel m" for m
    unfolding kw using call_raising_no_Sentinel [OF ur] .
  have tools: "set (as_langchain_tools self) \<subseteq> range method_name"
    using TOOL_METHOD_NAMES_methods by (auto simp: as_langchain_tools_def)
  show ?thesis
    using ns tools by (auto simp: w yields_def)
qed

theorem wrapped_restores_flag_witness:
  "yields (fst (fst (wrapped demo_fac (demo_tools ''unknown_case'' ''smart'' False)
       (InterviewWitness ''Nisha'')))) UnknownCase
   \<and> fst (fst (wrapped demo_fac (demo_tools ''unknown_case'' ''smart'' False)
       (InterviewWitness ''Nisha''))) = ToolException ''[error] Unknown case_id.''
   \<and> raise_errors (snd (wrapped demo_fac (demo_tools ''unknown_case'' ''smart'' False)
       (InterviewWitness ''Nisha''))) = False
   \<and> fst (fst (wrapped demo_fac (demo_tools ''canteen_cashbox_theft'' ''smart'' False)
       (InterviewWitness ''Nisha''))) = Response ''Nisha saw a grey scooter.''
   \<and> raise_errors (snd (wrapped demo_fac (demo_tools ''canteen_cashbox_theft'' ''smart'' False)
       (InterviewWitness ''Nisha''))) = False"
proof -
  let ?u = "demo_tools ''unknown_case'' ''smart'' False"
  let ?s = "demo_tools ''canteen_cashbox_theft'' ''smart'' False"
  let ?i = "InterviewWitness ''Nisha''"
  have y: "yields (fst (fst (wrapped demo_fac ?u ?i))) UnknownCase"
    by (simp add: wrapped_def Let_def interview_witness_def call_def demo_tools_def demo_db_def demo_lookup_exact
        use_raise_def maybe_error_def yields_def)
  from wrapped_restores_flag [where fac = demo_fac and self = "?u" and i = "?i"
      and f = UnknownCase and m = "[]"] y
  have a: "fst (fst (wrapped demo_fac ?u ?i)) = ToolException ''[error] Unknown case_id.''"
    and b: "raise_errors (snd (wrapped demo_fac ?u ?i)) = False"
    by (simp_all add: msg_unknown_case_def demo_tools_def)
  from wrapped_restores_flag [where fac = demo_fac and self = "?s" and i = "?i"
      and f = UnknownCase and m = "[]"]
  have c: "fst (wrapped demo_fac ?s ?i) = invoke demo_fac (?s\<lparr>raise_errors := True\<rparr>) ?i"
    and d: "raise_errors (snd (wrapped demo_fac ?s ?i)) = False"
    by (simp_all add: demo_tools_def)
  have "invoke demo_fac (?s\<lparr>raise_errors := True\<rparr>) ?i
      = call demo_fac (demo_tools ''canteen_cashbox_theft'' ''smart'' True) ''interview_witness'' None
          [''witness_name'' \<mapsto> ''Nisha'']"
    by (simp add: interview_witness_def demo_tools_def)
  with c have e: "fst (fst (wrapped demo_fac ?s ?i)) = Response ''Nisha saw a grey scooter.''"
    by (simp add: demo_exact_hit)
  from y a b e d show ?thesis by (intro conjI)
qed

end
